theory Spec2Isabelle
  imports Complex_Main "HOL-Library.Word" "HOL-Library.Sublist"
begin

section \<open>The AI service adapter (services/gemini.ts)\<close>

text \<open>
  The module exports three asynchronous operations, \<open>generatePrompts\<close>,
  \<open>analyzeImageStyle\<close> and \<open>generateImage\<close>, each one request to the remote
  generative service through the client \<open>ai\<close>. The embedding takes the client as a
  parameter: a function from the request that is sent to the settled outcome of the
  call, \<open>Inl\<close> for a raised exception and \<open>Inr\<close> for the response.
  An operation returns \<open>thrown + result\<close> in the same way, so that every \<open>throw\<close> and
  every \<open>catch\<close> of the source is a branch. Logging (\<open>console.error\<close>) has no effect on
  the results and is left out.
\<close>

subsection \<open>Strings\<close>

text \<open>
  A JavaScript string is a sequence of UTF-16 code units. The literals of the source are
  ASCII; \<open>js\<close> turns an Isabelle string literal into the code units.
\<close>

type_synonym js_string = "16 word list"

definition code_unit :: "char \<Rightarrow> 16 word" where
  "code_unit c = of_char c"

definition js :: "string \<Rightarrow> js_string" where
  "js s = map code_unit s"

text \<open>\<open>s.includes(searchString)\<close> and \<open>s.startsWith(searchString)\<close>.\<close>

definition String_includes :: "js_string \<Rightarrow> js_string \<Rightarrow> bool" where
  "String_includes s searchString = sublist searchString s"

definition String_startsWith :: "js_string \<Rightarrow> js_string \<Rightarrow> bool" where
  "String_startsWith s searchString = prefix searchString s"

subsection \<open>Thrown values\<close>

text \<open>
  JavaScript can throw any value. The handlers of this module only ask whether the value
  is an instance of \<open>Error\<close> and, if so, read its \<open>message\<close>.
\<close>

datatype thrown = Error_instance (message: js_string) | Non_Error

subsection \<open>The image endpoint\<close>

text \<open>
  Modelled from the spec: the type \<open>AspectRatio\<close> is imported from \<open>../types\<close>, which is
  not among the sources. The spec has it as an enumerated string value that is passed
  through to the endpoint unchanged.
\<close>

type_synonym AspectRatio = js_string

record image_config =
  numberOfImages :: nat
  outputMimeType :: js_string
  aspectRatio :: AspectRatio

record image_request =
  image_model :: js_string
  prompt :: js_string
  image_config :: image_config

text \<open>
  The response of \<open>ai.models.generateImages\<close>, with the fields the module reads:
  \<open>generatedImages[0].image.imageBytes\<close>. In the declarations of the SDK the list, the
  \<open>image\<close> of an entry and the \<open>imageBytes\<close> of an image are each optional; \<open>None\<close> is
  \<open>undefined\<close>.
\<close>

record image =
  imageBytes :: "js_string option"

record generated_image =
  image :: "image option"

record images_response =
  generatedImages :: "generated_image list option"

text \<open>
  What \<open>generateImage\<close> returns is declared as
  \<open>{ base64: string | null; error: string | null }\<close>. A field holds what JavaScript puts
  there: \<open>null\<close>, \<open>undefined\<close> or a string.
\<close>

datatype nullable = Null | Undefined | Str js_string

record image_result =
  base64 :: nullable
  error :: nullable

definition IMAGE_GENERATION_MODEL :: js_string where
  "IMAGE_GENERATION_MODEL = js ''imagen-3.0-generate-002''"

definition generateImage_request :: "js_string \<Rightarrow> AspectRatio \<Rightarrow> image_request" where
  "generateImage_request prompt' aspectRatio' =
     \<lparr>image_model = IMAGE_GENERATION_MODEL,
      prompt = prompt',
      image_config = \<lparr>numberOfImages = 1,
                      outputMimeType = js ''image/jpeg'',
                      aspectRatio = aspectRatio'\<rparr>\<rparr>"

text \<open>
  Reading \<open>imageBytes\<close> of an \<open>image\<close> that is \<open>undefined\<close> raises a \<open>TypeError\<close>, an
  instance of \<open>Error\<close> whose message is the engine's. The handler of \<open>generateImage\<close>
  reads the message, so it is given: the text is V8's.
\<close>

definition TypeError_message :: js_string where
  "TypeError_message = js ''Cannot read properties of undefined (reading 'imageBytes')''"

text \<open>
  The body of the \<open>try\<close> block of \<open>generateImage\<close>. The first entry of a non-empty list
  is read without a check: an absent \<open>image\<close> raises, absent \<open>imageBytes\<close> are returned
  as they are.
\<close>

definition generateImage_try ::
  "(image_request \<Rightarrow> thrown + images_response) \<Rightarrow> js_string \<Rightarrow> AspectRatio \<Rightarrow> thrown + image_result"
where
  "generateImage_try generateImages' prompt' aspectRatio' =
     (case generateImages' (generateImage_request prompt' aspectRatio') of
        Inl err \<Rightarrow> Inl err
      | Inr response \<Rightarrow>
          (case generatedImages response of
             None \<Rightarrow> Inr \<lparr>base64 = Null, error = Str (js ''The API did not return an image.'')\<rparr>
           | Some imgs \<Rightarrow>
               if length imgs > 0
               then (case image (imgs ! 0) of
                       None \<Rightarrow> Inl (Error_instance TypeError_message)
                     | Some img \<Rightarrow>
                         Inr \<lparr>base64 = (case imageBytes img of
                                           None \<Rightarrow> Undefined
                                         | Some bytes \<Rightarrow> Str bytes),
                              error = Null\<rparr>)
               else Inr \<lparr>base64 = Null, error = Str (js ''The API did not return an image.'')\<rparr>))"

text \<open>The \<open>catch (err)\<close> block of \<open>generateImage\<close>: it returns, it does not throw.\<close>

definition generateImage_catch :: "thrown \<Rightarrow> image_result" where
  "generateImage_catch err =
     (let errorMessage = (case err of Error_instance m \<Rightarrow> m
                                     | Non_Error \<Rightarrow> js ''An unknown error occurred.'')
      in if String_includes errorMessage (js ''sensitive words'')
            \<or> String_includes errorMessage (js ''Responsible AI practices'')
            \<or> String_includes errorMessage (js ''prompt contains sensitive words'')
         then \<lparr>base64 = Null,
               error = Str (js ''This prompt was blocked for safety reasons. Please try rephrasing it.'')\<rparr>
         else \<lparr>base64 = Null, error = Str (js ''Image generation failed.'')\<rparr>)"

definition generateImage ::
  "(image_request \<Rightarrow> thrown + images_response) \<Rightarrow> js_string \<Rightarrow> AspectRatio \<Rightarrow> thrown + image_result"
where
  "generateImage generateImages' prompt' aspectRatio' =
     (case generateImage_try generateImages' prompt' aspectRatio' of
        Inl err \<Rightarrow> Inr (generateImage_catch err)
      | Inr r \<Rightarrow> Inr r)"

text \<open>A field of the result is populated when it holds a string.\<close>

fun populated :: "nullable \<Rightarrow> bool" where
  "populated (Str s) = True"
| "populated Null = False"
| "populated Undefined = False"

subsection \<open>The content endpoint\<close>

text \<open>
  The request of \<open>ai.models.generateContent\<close>: the model id, the contents (a plain
  instruction text, or parts) and the optional response format.
\<close>

datatype part = InlineData (mimeType: js_string) (data: js_string) | Text js_string

datatype contents = Text_contents js_string | Parts_contents "part list"

datatype schema =
    Schema_STRING js_string
  | Schema_ARRAY schema
  | Schema_OBJECT "(js_string \<times> schema) list" "js_string list"

record generation_config =
  responseMimeType :: js_string
  responseSchema :: schema

record content_request =
  model :: js_string
  contents :: contents
  config :: "generation_config option"

text \<open>
  What the module reads of the response: \<open>response.text\<close> (a string or \<open>undefined\<close>) and
  \<open>response.candidates?.[0]?.finishReason\<close>.
\<close>

record candidate =
  finishReason :: "js_string option"

record content_response =
  response_text :: "js_string option"
  candidates :: "candidate list option"

definition PROMPT_GENERATION_MODEL :: js_string where
  "PROMPT_GENERATION_MODEL = js ''gemini-2.5-flash''"

definition promptSchema :: schema where
  "promptSchema =
     Schema_OBJECT
       [(js ''prompts'',
         Schema_ARRAY (Schema_STRING (js (''A single, descriptive prompt for generating an image ''
           @ ''based on a scene from the script.''))))]
       [js ''prompts'']"

subsection \<open>JSON.parse\<close>

text \<open>
  \<open>JSON.parse\<close> is a built-in of the platform. It is modelled after the JSON grammar
  (ECMA-404) in two passes over the code units: a lexer, and a parser that keeps the open
  arrays and objects on a stack. \<open>None\<close> stands for the \<open>SyntaxError\<close> it raises. A number
  is kept as the exact rational its literal denotes.

  Code units named below: \<open>0x22\<close> is the double quote, \<open>0x5C\<close> the backslash, \<open>0x2F\<close> the
  slash, \<open>0x2D\<close> minus, \<open>0x2B\<close> plus, \<open>0x2E\<close> the dot, \<open>0x30\<close> to \<open>0x39\<close> the digits,
  \<open>0x65\<close> and \<open>0x45\<close> the exponent letters, \<open>0x7B\<close> and \<open>0x7D\<close> the braces, \<open>0x5B\<close> and
  \<open>0x5D\<close> the brackets, \<open>0x3A\<close> the colon, \<open>0x2C\<close> the comma, \<open>0x75\<close> the letter u.
\<close>

datatype json =
    JNull
  | JBool bool
  | JNumber rat
  | JString js_string
  | JArray "json list"
  | JObject "(js_string \<times> json) list"

datatype token =
    LBrace | RBrace | LBracket | RBracket | Colon | Comma
  | TString js_string | TNumber rat | TTrue | TFalse | TNull

definition is_json_whitespace :: "16 word \<Rightarrow> bool" where
  "is_json_whitespace c \<longleftrightarrow> c = 0x20 \<or> c = 0x09 \<or> c = 0x0A \<or> c = 0x0D"

definition is_digit :: "16 word \<Rightarrow> bool" where
  "is_digit c \<longleftrightarrow> 0x30 \<le> c \<and> c \<le> 0x39"

definition digit_value :: "16 word \<Rightarrow> nat" where
  "digit_value c = unat c - 0x30"

definition hex_value :: "16 word \<Rightarrow> nat option" where
  "hex_value c =
     (if is_digit c then Some (digit_value c)
      else if 0x61 \<le> c \<and> c \<le> 0x66 then Some (unat c - 0x61 + 10)
      else if 0x41 \<le> c \<and> c \<le> 0x46 then Some (unat c - 0x41 + 10)
      else None)"

fun hex4 :: "js_string \<Rightarrow> (16 word \<times> js_string) option" where
  "hex4 (a # b # c # d # rest) =
     (case (hex_value a, hex_value b, hex_value c, hex_value d) of
        (Some x, Some y, Some z, Some w) \<Rightarrow> Some (of_nat (((x * 16 + y) * 16 + z) * 16 + w), rest)
      | _ \<Rightarrow> None)"
| "hex4 _ = None"

definition escape_unit :: "16 word \<Rightarrow> 16 word option" where
  "escape_unit e =
     (if e = 0x22 then Some 0x22
      else if e = 0x5C then Some 0x5C
      else if e = 0x2F then Some 0x2F
      else if e = 0x62 then Some 0x08
      else if e = 0x66 then Some 0x0C
      else if e = 0x6E then Some 0x0A
      else if e = 0x72 then Some 0x0D
      else if e = 0x74 then Some 0x09
      else None)"

lemma hex4_length: "hex4 cs = Some (u, rest) \<Longrightarrow> length rest < length cs"
  by (induction cs rule: hex4.induct) (auto split: option.splits)

function lex_string :: "js_string \<Rightarrow> js_string \<Rightarrow> (js_string \<times> js_string) option" where
  "lex_string acc [] = None"
| "lex_string acc (c # cs) =
     (if c = 0x22 then Some (rev acc, cs)
      else if c = 0x5C then
        (case cs of
           [] \<Rightarrow> None
         | e # cs' \<Rightarrow>
             if e = 0x75 then
               (case hex4 cs' of
                  None \<Rightarrow> None
                | Some (u, rest) \<Rightarrow> lex_string (u # acc) rest)
             else
               (case escape_unit e of
                  None \<Rightarrow> None
                | Some u \<Rightarrow> lex_string (u # acc) cs'))
      else if c < 0x20 then None
      else lex_string (c # acc) cs)"
  by pat_completeness auto
termination
  by (relation "measure (\<lambda>(acc, cs). length cs)") (auto dest: hex4_length)

lemma lex_string_length: "lex_string acc cs = Some (s, rest) \<Longrightarrow> length rest < length cs"
proof (induction acc cs rule: lex_string.induct)
  case (1 acc)
  then show ?case by simp
next
  case (2 acc c cs)
  show ?case
  proof (cases "c = 0x22")
    case True
    with "2.prems" show ?thesis by simp
  next
    case quote: False
    show ?thesis
    proof (cases "c = 0x5C")
      case True
      with quote "2.prems" obtain e cs' where cs: "cs = e # cs'"
        by (cases cs) auto
      show ?thesis
      proof (cases "e = 0x75")
        case u: True
        with quote True cs "2.prems" obtain w rest' where
          h: "hex4 cs' = Some (w, rest')" and r: "lex_string (w # acc) rest' = Some (s, rest)"
          by (auto split: option.splits)
        from "2.IH"(1) [OF quote True cs u h refl r] hex4_length [OF h] cs
        show ?thesis by simp
      next
        case nu: False
        with quote True cs "2.prems" obtain w where
          h: "escape_unit e = Some w" and r: "lex_string (w # acc) cs' = Some (s, rest)"
          by (auto split: option.splits)
        from "2.IH"(2) [OF quote True cs nu h r] cs
        show ?thesis by simp
      qed
    next
      case False
      with quote "2.prems" have "\<not> c < 0x20" and "lex_string (c # acc) cs = Some (s, rest)"
        by (auto split: if_splits)
      with "2.IH"(3) [OF quote False] show ?thesis by simp
    qed
  qed
qed

definition digits_value :: "js_string \<Rightarrow> nat" where
  "digits_value ds = foldl (\<lambda>n c. 10 * n + digit_value c) 0 ds"

definition lex_int :: "js_string \<Rightarrow> (js_string \<times> js_string) option" where
  "lex_int cs =
     (case cs of
        [] \<Rightarrow> None
      | d # r \<Rightarrow>
          if d = 0x30 then Some ([d], r)
          else if is_digit d then Some (d # takeWhile is_digit r, dropWhile is_digit r)
          else None)"

definition lex_frac :: "js_string \<Rightarrow> (js_string \<times> js_string) option" where
  "lex_frac cs =
     (case cs of
        [] \<Rightarrow> Some ([], cs)
      | c # r \<Rightarrow>
          if c = 0x2E then
            (if takeWhile is_digit r = [] then None
             else Some (takeWhile is_digit r, dropWhile is_digit r))
          else Some ([], cs))"

definition lex_exp_sign :: "js_string \<Rightarrow> bool \<times> js_string" where
  "lex_exp_sign cs =
     (case cs of
        [] \<Rightarrow> (False, cs)
      | s # r \<Rightarrow> if s = 0x2D then (True, r) else if s = 0x2B then (False, r) else (False, cs))"

definition lex_exp :: "js_string \<Rightarrow> (int \<times> js_string) option" where
  "lex_exp cs =
     (case cs of
        [] \<Rightarrow> Some (0, cs)
      | c # r \<Rightarrow>
          if c = 0x65 \<or> c = 0x45 then
            (let (negative, r') = lex_exp_sign r;
                 ds = takeWhile is_digit r'
             in if ds = [] then None
                else Some (if negative then - int (digits_value ds) else int (digits_value ds),
                           dropWhile is_digit r'))
          else Some (0, cs))"

definition lex_number :: "js_string \<Rightarrow> (rat \<times> js_string) option" where
  "lex_number cs =
     (let (negative, cs1) = (case cs of [] \<Rightarrow> (False, cs)
                                    | c # r \<Rightarrow> if c = 0x2D then (True, r) else (False, cs))
      in case lex_int cs1 of
           None \<Rightarrow> None
         | Some (ip, cs2) \<Rightarrow>
             (case lex_frac cs2 of
                None \<Rightarrow> None
              | Some (fp, cs3) \<Rightarrow>
                  (case lex_exp cs3 of
                     None \<Rightarrow> None
                   | Some (ex, cs4) \<Rightarrow>
                       Some ((if negative then - 1 else 1)
                               * (of_nat (digits_value ip) + of_nat (digits_value fp) / 10 ^ length fp)
                               * 10 powi ex,
                             cs4))))"

lemma lex_int_length: "lex_int cs = Some (ds, rest) \<Longrightarrow> length rest < length cs"
  by (auto simp: lex_int_def split: list.splits if_splits
           intro: le_imp_less_Suc length_dropWhile_le)

lemma lex_frac_length: "lex_frac cs = Some (ds, rest) \<Longrightarrow> length rest \<le> length cs"
  by (auto simp: lex_frac_def split: list.splits if_splits
           intro: le_SucI length_dropWhile_le)

lemma lex_exp_sign_length: "lex_exp_sign cs = (b, rest) \<Longrightarrow> length rest \<le> length cs"
  by (auto simp: lex_exp_sign_def split: list.splits if_splits)

lemma lex_exp_length: "lex_exp cs = Some (e, rest) \<Longrightarrow> length rest \<le> length cs"
proof -
  assume a: "lex_exp cs = Some (e, rest)"
  show ?thesis
  proof (cases cs)
    case Nil
    with a show ?thesis by (simp add: lex_exp_def)
  next
    case (Cons c r)
    obtain b r' where s: "lex_exp_sign r = (b, r')" by (cases "lex_exp_sign r")
    then have "length r' \<le> length r" by (rule lex_exp_sign_length)
    moreover have "length (dropWhile is_digit r') \<le> length r'" by (rule length_dropWhile_le)
    ultimately show ?thesis
      using a Cons s by (auto simp: lex_exp_def Let_def split: if_splits)
  qed
qed

lemma lex_number_length: "lex_number cs = Some (q, rest) \<Longrightarrow> length rest < length cs"
proof -
  assume a: "lex_number cs = Some (q, rest)"
  obtain negative cs1 where
    s: "(case cs of [] \<Rightarrow> (False, cs) | c # r \<Rightarrow> if c = 0x2D then (True, r) else (False, cs)) = (negative, cs1)"
    by (cases "(case cs of [] \<Rightarrow> (False, cs) | c # r \<Rightarrow> if c = 0x2D then (True, r) else (False, cs))")
  then have l1: "length cs1 \<le> length cs"
    by (auto split: list.splits if_splits)
  from a s obtain ip cs2 fp cs3 ex where
    i: "lex_int cs1 = Some (ip, cs2)" and f: "lex_frac cs2 = Some (fp, cs3)"
    and e: "lex_exp cs3 = Some (ex, rest)"
    by (auto simp: lex_number_def split: option.splits)
  from lex_int_length [OF i] lex_frac_length [OF f] lex_exp_length [OF e] l1
  show ?thesis by simp
qed

function lex :: "js_string \<Rightarrow> token list option" where
  "lex [] = Some []"
| "lex (c # cs) =
     (if is_json_whitespace c then lex cs
      else if c = 0x7B then map_option (Cons LBrace) (lex cs)
      else if c = 0x7D then map_option (Cons RBrace) (lex cs)
      else if c = 0x5B then map_option (Cons LBracket) (lex cs)
      else if c = 0x5D then map_option (Cons RBracket) (lex cs)
      else if c = 0x3A then map_option (Cons Colon) (lex cs)
      else if c = 0x2C then map_option (Cons Comma) (lex cs)
      else if c = 0x22 then
        (case lex_string [] cs of
           None \<Rightarrow> None
         | Some (s, rest) \<Rightarrow> map_option (Cons (TString s)) (lex rest))
      else if c = 0x2D \<or> is_digit c then
        (case lex_number (c # cs) of
           None \<Rightarrow> None
         | Some (q, rest) \<Rightarrow> map_option (Cons (TNumber q)) (lex rest))
      else if prefix (js ''true'') (c # cs) then map_option (Cons TTrue) (lex (drop 3 cs))
      else if prefix (js ''false'') (c # cs) then map_option (Cons TFalse) (lex (drop 4 cs))
      else if prefix (js ''null'') (c # cs) then map_option (Cons TNull) (lex (drop 3 cs))
      else None)"
  by pat_completeness auto
termination
  by (relation "measure length")
     (auto dest: lex_string_length lex_number_length intro: le_imp_less_Suc)

datatype container =
    In_array "json list"
  | In_object "(js_string \<times> json) list" "js_string option"

datatype expecting =
  Value | Value_or_close | Key_or_close | Key | Colon_sep | Comma_or_close

datatype parser_state = Parsing expecting "container list" | Done json

fun deliver :: "json \<Rightarrow> container list \<Rightarrow> parser_state option" where
  "deliver v [] = Some (Done v)"
| "deliver v (In_array xs # st) = Some (Parsing Comma_or_close (In_array (v # xs) # st))"
| "deliver v (In_object kvs (Some k) # st) =
     Some (Parsing Comma_or_close (In_object ((k, v) # kvs) None # st))"
| "deliver v (In_object kvs None # st) = None"

fun start_value :: "container list \<Rightarrow> token \<Rightarrow> parser_state option" where
  "start_value st LBracket = Some (Parsing Value_or_close (In_array [] # st))"
| "start_value st LBrace = Some (Parsing Key_or_close (In_object [] None # st))"
| "start_value st (TString s) = deliver (JString s) st"
| "start_value st (TNumber q) = deliver (JNumber q) st"
| "start_value st TTrue = deliver (JBool True) st"
| "start_value st TFalse = deliver (JBool False) st"
| "start_value st TNull = deliver JNull st"
| "start_value st _ = None"

fun start_key :: "container list \<Rightarrow> token \<Rightarrow> parser_state option" where
  "start_key (In_object kvs None # st) (TString k) =
     Some (Parsing Colon_sep (In_object kvs (Some k) # st))"
| "start_key _ _ = None"

fun close_container :: "container list \<Rightarrow> token \<Rightarrow> parser_state option" where
  "close_container (In_array xs # st) RBracket = deliver (JArray (rev xs)) st"
| "close_container (In_object kvs None # st) RBrace = deliver (JObject (rev kvs)) st"
| "close_container _ _ = None"

fun parse_step :: "parser_state \<Rightarrow> token \<Rightarrow> parser_state option" where
  "parse_step (Done v) t = None"
| "parse_step (Parsing Value st) t = start_value st t"
| "parse_step (Parsing Value_or_close st) t =
     (if t = RBracket then close_container st t else start_value st t)"
| "parse_step (Parsing Key_or_close st) t =
     (if t = RBrace then close_container st t else start_key st t)"
| "parse_step (Parsing Key st) t = start_key st t"
| "parse_step (Parsing Colon_sep st) t = (if t = Colon then Some (Parsing Value st) else None)"
| "parse_step (Parsing Comma_or_close st) t =
     (if t = Comma then
        (case st of
           In_array xs # st' \<Rightarrow> Some (Parsing Value st)
         | In_object kvs None # st' \<Rightarrow> Some (Parsing Key st)
         | _ \<Rightarrow> None)
      else close_container st t)"

fun parse_tokens :: "parser_state \<Rightarrow> token list \<Rightarrow> parser_state option" where
  "parse_tokens s [] = Some s"
| "parse_tokens s (t # ts) =
     (case parse_step s t of None \<Rightarrow> None | Some s' \<Rightarrow> parse_tokens s' ts)"

definition JSON_parse :: "js_string \<Rightarrow> json option" where
  "JSON_parse text' =
     (case lex text' of
        None \<Rightarrow> None
      | Some ts \<Rightarrow>
          (case parse_tokens (Parsing Value []) ts of
             Some (Done v) \<Rightarrow> Some v
           | _ \<Rightarrow> None))"


text \<open>
  The values as JavaScript sees them. A value is falsy when it is \<open>null\<close>, \<open>false\<close>, the
  empty string or a number that is zero; a number literal denotes zero as a double when
  its magnitude is at most \<open>2^-1075\<close> (it rounds to zero).
\<close>

fun truthy :: "json \<Rightarrow> bool" where
  "truthy JNull = False"
| "truthy (JBool b) = b"
| "truthy (JNumber q) = (\<bar>q\<bar> > 1 / 2 ^ 1075)"
| "truthy (JString s) = (s \<noteq> [])"
| "truthy (JArray xs) = True"
| "truthy (JObject kvs) = True"

datatype native_error = TypeError | SyntaxError

text \<open>
  The property read \<open>result.prompts\<close>: a \<open>TypeError\<close> on \<open>null\<close>; on an object the value
  of its own property \<open>prompts\<close> (the last one, when the text repeats the key) or
  \<open>undefined\<close> (\<open>None\<close>); \<open>undefined\<close> on an array and on a primitive, which have
  no property of that name.
\<close>

fun get_prompts :: "json \<Rightarrow> native_error + json option" where
  "get_prompts JNull = Inl TypeError"
| "get_prompts (JObject kvs) = Inr (map_of (rev kvs) (js ''prompts''))"
| "get_prompts _ = Inr None"

subsection \<open>generatePrompts\<close>

text \<open>
  The template literal \<open>requestPrompt\<close>: three fixed parts around the optional niche line,
  the style and the script.
\<close>

definition instruction_head :: string where
  \<open>instruction_head =
     ''System Instruction: You are an expert script analyst and creative ''
     @ ''director. Your job is to read a script, break it down into key visual ''
     @ ''moments, and generate safe, detailed prompts for a text-to-image AI.\<newline>''
     @ ''\<newline>''
     @ ''User Request:\<newline>''
     @ ''I have a script that needs to be visualized. Please generate a series ''
     @ ''of image prompts based on it.\<newline>''
     @ ''\<newline>''
     @ ''**Context & Style:**\<newline>''\<close>

definition instruction_middle :: string where
  \<open>instruction_middle =
     ''\<newline>''
     @ ''\<newline>''
     @ ''**CRITICAL INSTRUCTIONS:**\<newline>''
     @ ''1.  **Analyze and Breakdown:** Read the script and divide it into ''
     @ ''logical scenes or distinct visual moments.\<newline>''
     @ ''2.  **Generate Prompts:** For each scene, create ONE image prompt. Each ''
     @ ''prompt MUST be detailed and strictly adhere to the provided **Visual ''
     @ ''Style** and incorporate the **Topic/Niche** (if provided).\<newline>''
     @ ''3.  **IMPORTANT SAFETY RULE:** You MUST generate prompts that are safe ''
     @ ''and appropriate for a general audience. Do not describe or imply ''
     @ ''violence, explicit situations, or sensitive interactions, especially ''
     @ ''those involving minors, even if historically accurate. If the script ''
     @ ''contains such themes, you MUST represent them abstractly or ''
     @ ''symbolically. Focus on setting, atmosphere, and emotion. For example, ''
     @ ''to show tension, describe "long, distorted shadows in a dimly lit room" ''
     @ ''instead of a direct confrontation. Failure to follow this rule will ''
     @ ''result in an invalid response.\<newline>''
     @ ''4.  **Output Format:** Your entire response MUST be a valid JSON object ''
     @ ''with a single key "prompts", which is an array of strings. Each string ''
     @ ''in the array is a single image prompt. Do not add any commentary, ''
     @ ''explanations, or markdown formatting around the JSON.\<newline>''
     @ ''\<newline>''
     @ ''**Example Response:**\<newline>''
     @ ''{\<newline>''
     @ ''  "prompts": [\<newline>''
     @ ''    "A lone astronaut stands on a desolate red planet, facing a ''
     @ ''swirling dust storm under a dim sun. Cinematic lighting casts long, ''
     @ ''dramatic shadows. The style is reminiscent of Denis ''
     @ ''Villeneuve's 'Dune'.",\<newline>''
     @ ''    "Extreme close-up on the astronaut's cracked helmet visor. The ''
     @ ''glass reflects a tiny, distant blue Earth, a stark contrast to the ''
     @ ''harsh alien landscape. The image is hyperrealistic, with visible dust ''
     @ ''particles floating in the foreground."\<newline>''
     @ ''  ]\<newline>''
     @ ''}\<newline>''
     @ ''\<newline>''
     @ ''**SCRIPT TO ANALYZE:**\<newline>''
     @ ''---\<newline>''\<close>

definition instruction_tail :: string where
  \<open>instruction_tail =
     ''\<newline>''
     @ ''---\<newline>''\<close>

definition build_requestPrompt :: "js_string \<Rightarrow> js_string \<Rightarrow> js_string \<Rightarrow> js_string" where
  "build_requestPrompt script style niche =
     js instruction_head
     @ (if niche \<noteq> [] then js ''- **Topic/Niche:** '' @ niche @ js ''\<newline>'' else [])
     @ js ''- **Visual Style:** '' @ style
     @ js instruction_middle
     @ script
     @ js instruction_tail"

definition generatePrompts_request :: "js_string \<Rightarrow> js_string \<Rightarrow> js_string \<Rightarrow> content_request" where
  "generatePrompts_request script style niche =
     \<lparr>model = PROMPT_GENERATION_MODEL,
      contents = Text_contents (build_requestPrompt script style niche),
      config = Some \<lparr>responseMimeType = js ''application/json'',
                     responseSchema = promptSchema\<rparr>\<rparr>"

record prompts_result =
  prompts :: "json list"
  requestPrompt :: js_string

text \<open>\<open>response.candidates?.[0]?.finishReason\<close>.\<close>

definition first_finishReason :: "content_response \<Rightarrow> js_string option" where
  "first_finishReason response =
     (case candidates response of
        None \<Rightarrow> None
      | Some [] \<Rightarrow> None
      | Some (c # cs) \<Rightarrow> finishReason c)"

text \<open>The message chosen in the \<open>if (!jsonText)\<close> block.\<close>

definition empty_response_message :: "js_string option \<Rightarrow> js_string" where
  "empty_response_message finishReason' =
     (if finishReason' = Some (js ''SAFETY'') then
        js (''The script or style contains content that violates safety policies. ''
            @ ''Please revise your input and try again.'')
      else if finishReason' = Some (js ''RECITATION'') then
        js (''The response was blocked due to potential recitation issues. ''
            @ ''Try rephrasing your script.'')
      else if finishReason' \<noteq> None \<and> finishReason' \<noteq> Some [] \<and> finishReason' \<noteq> Some (js ''STOP'') then
        js ''Prompt generation stopped unexpectedly. Reason: '' @ the finishReason'
        @ js ''. Please check your script content.''
      else
        js (''The AI returned an empty response. This can happen if the script is too short, ''
            @ ''vague, or contains content that goes against the safety policy.''))"

text \<open>
  What a \<open>try\<close> block of this module can raise: an error of the engine itself, or a value
  thrown by the remote call or by a \<open>throw\<close> statement.
\<close>

datatype raised = Native native_error | Thrown thrown

text \<open>The inner \<open>try\<close> block: \<open>JSON.parse\<close> and the check of the parsed value.\<close>

definition parse_response :: "js_string \<Rightarrow> js_string \<Rightarrow> raised + prompts_result" where
  "parse_response jsonText requestPrompt' =
     (case JSON_parse jsonText of
        None \<Rightarrow> Inl (Native SyntaxError)
      | Some result \<Rightarrow>
          if truthy result then
            (case get_prompts result of
               Inl e \<Rightarrow> Inl (Native e)
             | Inr (Some (JArray ps)) \<Rightarrow> Inr \<lparr>prompts = ps, requestPrompt = requestPrompt'\<rparr>
             | Inr _ \<Rightarrow>
                 Inl (Thrown (Error_instance
                   (js ''The AI returned a response with an invalid structure. Please try again.''))))
          else
            Inl (Thrown (Error_instance
              (js ''The AI returned a response with an invalid structure. Please try again.''))))"

text \<open>The inner \<open>catch (parseError)\<close> block: whatever was raised, it throws one message.\<close>

definition catch_parseError :: "raised \<Rightarrow> thrown" where
  "catch_parseError parseError =
     Error_instance (js (''The AI returned a response that was not valid JSON. ''
                         @ ''This may be a temporary issue, please try again.''))"

text \<open>The outer \<open>try\<close> block.\<close>

definition generatePrompts_try ::
  "(content_request \<Rightarrow> thrown + content_response) \<Rightarrow> js_string \<Rightarrow> js_string \<Rightarrow> js_string
     \<Rightarrow> thrown + prompts_result"
where
  "generatePrompts_try generateContent' script style niche =
     (let requestPrompt' = build_requestPrompt script style niche in
      case generateContent' (generatePrompts_request script style niche) of
        Inl err \<Rightarrow> Inl err
      | Inr response \<Rightarrow>
          if response_text response = None \<or> response_text response = Some [] then
            Inl (Error_instance (empty_response_message (first_finishReason response)))
          else
            (case parse_response (the (response_text response)) requestPrompt' of
               Inl parseError \<Rightarrow> Inl (catch_parseError parseError)
             | Inr r \<Rightarrow> Inr r))"

text \<open>The outer \<open>catch (error)\<close> block.\<close>

definition generatePrompts_catch :: "thrown \<Rightarrow> thrown" where
  "generatePrompts_catch error' =
     (if (case error' of
            Error_instance m \<Rightarrow>
              String_startsWith m (js ''The AI returned'')
              \<or> String_startsWith m (js ''The script or style'')
              \<or> String_startsWith m (js ''The response was blocked'')
              \<or> String_startsWith m (js ''Prompt generation stopped'')
          | Non_Error \<Rightarrow> False)
      then error'
      else Error_instance
             (js ''Failed to generate prompts from the script due to an unexpected AI service error.''))"

definition generatePrompts ::
  "(content_request \<Rightarrow> thrown + content_response) \<Rightarrow> js_string \<Rightarrow> js_string \<Rightarrow> js_string
     \<Rightarrow> thrown + prompts_result"
where
  "generatePrompts generateContent' script style niche =
     (case generatePrompts_try generateContent' script style niche of
        Inl error' \<Rightarrow> Inl (generatePrompts_catch error')
      | Inr r \<Rightarrow> Inr r)"

subsection \<open>analyzeImageStyle\<close>

record image_data =
  imageData_base64 :: js_string
  imageData_mimeType :: js_string

definition style_analysis_instruction :: string where
  \<open>style_analysis_instruction =
     ''Analyze the artistic style of this image. Describe the style in a ''
     @ ''concise, comma-separated list of keywords and phrases suitable for a ''
     @ ''text-to-image AI. Focus on elements like lighting, color palette, ''
     @ ''composition, medium (e.g., photograph, oil painting), and overall mood. ''
     @ ''Do not use full sentences. Example: cinematic, dramatic lighting, high ''
     @ ''contrast, muted color palette, photorealistic, shallow depth of field, ''
     @ ''moody atmosphere.''\<close>

definition analyzeImageStyle_request :: "image_data \<Rightarrow> content_request" where
  "analyzeImageStyle_request imageData =
     \<lparr>model = PROMPT_GENERATION_MODEL,
      contents = Parts_contents
        [InlineData (imageData_mimeType imageData) (imageData_base64 imageData),
         Text (js style_analysis_instruction)],
      config = None\<rparr>"

text \<open>
  \<open>String.prototype.trim\<close> removes white space and line terminators from both ends:
  TAB, LF, VT, FF, CR, SP, NBSP, U+1680, U+2000 to U+200A, LS, PS, U+202F, U+205F, U+3000
  and the byte order mark.
\<close>

definition is_white_space :: "16 word \<Rightarrow> bool" where
  "is_white_space c \<longleftrightarrow>
     c = 0x0009 \<or> c = 0x000A \<or> c = 0x000B \<or> c = 0x000C \<or> c = 0x000D \<or> c = 0x0020
     \<or> c = 0x00A0 \<or> c = 0x1680 \<or> (0x2000 \<le> c \<and> c \<le> 0x200A) \<or> c = 0x2028 \<or> c = 0x2029
     \<or> c = 0x202F \<or> c = 0x205F \<or> c = 0x3000 \<or> c = 0xFEFF"

definition String_trim :: "js_string \<Rightarrow> js_string" where
  "String_trim s = rev (dropWhile is_white_space (rev (dropWhile is_white_space s)))"

text \<open>
  The \<open>try\<close> block: \<open>response.text.trim()\<close> raises a \<open>TypeError\<close> when the text is
  \<open>undefined\<close>.
\<close>

definition analyzeImageStyle_try ::
  "(content_request \<Rightarrow> thrown + content_response) \<Rightarrow> image_data \<Rightarrow> raised + js_string"
where
  "analyzeImageStyle_try generateContent' imageData =
     (case generateContent' (analyzeImageStyle_request imageData) of
        Inl err \<Rightarrow> Inl (Thrown err)
      | Inr response \<Rightarrow>
          (case response_text response of
             None \<Rightarrow> Inl (Native TypeError)
           | Some t \<Rightarrow> Inr (String_trim t)))"

definition analyzeImageStyle ::
  "(content_request \<Rightarrow> thrown + content_response) \<Rightarrow> image_data \<Rightarrow> thrown + js_string"
where
  "analyzeImageStyle generateContent' imageData =
     (case analyzeImageStyle_try generateContent' imageData of
        Inl error' \<Rightarrow> Inl (Error_instance (js ''Failed to analyze the reference image style.''))
      | Inr s \<Rightarrow> Inr s)"

section \<open>Properties\<close>

subsection \<open>Code units and literals\<close>

lemma unat_code_unit: "unat (code_unit c) = of_char c"
proof -
  have "code_unit c = word_of_nat (of_char c)"
    by (simp add: code_unit_def of_nat_of_char)
  then have "unat (code_unit c) = (of_char c :: nat) mod 2 ^ 16"
    by (simp only: unat_of_nat) simp
  moreover have "(of_char c :: nat) < 256"
    by (metis of_char_mod_256 mod_less_divisor zero_less_numeral)
  ultimately show ?thesis by simp
qed

lemma code_unit_eq_iff [simp]: "code_unit a = code_unit b \<longleftrightarrow> a = b"
  by (metis unat_code_unit of_char_eq_iff)

lemma inj_code_unit: "inj code_unit"
  by (simp add: inj_on_def)

lemma js_eq_iff [simp]: "js a = js b \<longleftrightarrow> a = b"
  by (simp add: js_def inj_map_eq_map [OF inj_code_unit])

lemma js_Nil [simp]: "js [] = []"
  by (simp add: js_def)

lemma js_eq_Nil [simp]: "js a = [] \<longleftrightarrow> a = []"
  by (simp add: js_def)

lemma sublist_js [simp]: "sublist (js a) (js b) \<longleftrightarrow> sublist a b"
proof
  assume "sublist (js a) (js b)"
  then obtain a' where "sublist a' b" "js a = map code_unit a'"
    unfolding js_def by (blast dest: sublist_map_rightE)
  then show "sublist a b"
    by (simp add: js_def inj_map_eq_map [OF inj_code_unit])
qed (simp add: js_def map_mono_sublist)

lemma prefix_js [simp]: "prefix (js a) (js b) \<longleftrightarrow> prefix a b"
proof
  assume "prefix (js a) (js b)"
  then have "take (length a) (js b) = js a"
    by (auto simp: prefix_def js_def)
  then have "map code_unit (take (length a) b) = map code_unit a"
    by (simp add: js_def take_map)
  then have "take (length a) b = a"
    by (simp add: inj_map_eq_map [OF inj_code_unit])
  then show "prefix a b"
    by (metis take_is_prefix)
qed (simp add: js_def map_mono_prefix)

subsection \<open>generateImage\<close>

lemma sensitive_words_redundant:
  "String_includes m (js ''prompt contains sensitive words'') \<Longrightarrow>
   String_includes m (js ''sensitive words'')"
proof -
  assume a: "String_includes m (js ''prompt contains sensitive words'')"
  have "sublist (js ''sensitive words'') (js ''prompt contains sensitive words'')"
    by (simp add: sublist_code)
  moreover from a have "sublist (js ''prompt contains sensitive words'') m"
    by (simp add: String_includes_def)
  ultimately have "sublist (js ''sensitive words'') m"
    by (rule sublist_order.order.trans)
  then show ?thesis
    by (simp add: String_includes_def)
qed

lemma generateImage_catch_cases:
  "generateImage_catch err =
     (if \<exists>m. err = Error_instance m \<and>
              (String_includes m (js ''sensitive words'')
               \<or> String_includes m (js ''Responsible AI practices''))
      then \<lparr>base64 = Null,
            error = Str (js ''This prompt was blocked for safety reasons. Please try rephrasing it.'')\<rparr>
      else \<lparr>base64 = Null, error = Str (js ''Image generation failed.'')\<rparr>)"
proof (cases err)
  case (Error_instance m)
  then show ?thesis
    using sensitive_words_redundant [of m]
    by (auto simp: generateImage_catch_def)
next
  case Non_Error
  then show ?thesis
    by (simp add: generateImage_catch_def String_includes_def sublist_code)
qed

lemma generateImage_catch_one_populated:
  "base64 (generateImage_catch err) = Null \<and> populated (error (generateImage_catch err))"
  by (simp add: generateImage_catch_cases)

lemma generateImage_catch_TypeError:
  "generateImage_catch (Error_instance TypeError_message)
     = \<lparr>base64 = Null, error = Str (js ''Image generation failed.'')\<rparr>"
  by (simp add: generateImage_catch_cases TypeError_message_def String_includes_def sublist_code)

lemma generateImage_no_image:
  assumes "generateImages' (generateImage_request prompt' aspectRatio') = Inr response"
    and "generatedImages response = None \<or> generatedImages response = Some []"
  shows "generateImage generateImages' prompt' aspectRatio'
           = Inr \<lparr>base64 = Null, error = Str (js ''The API did not return an image.'')\<rparr>"
  using assms by (auto simp: generateImage_def generateImage_try_def)

lemma generateImage_first_entry:
  assumes "generateImages' (generateImage_request prompt' aspectRatio') = Inr response"
    and "generatedImages response = Some (g # rest)"
  shows "generateImage generateImages' prompt' aspectRatio' =
           Inr (case image g of
                  None \<Rightarrow> \<lparr>base64 = Null, error = Str (js ''Image generation failed.'')\<rparr>
                | Some img \<Rightarrow>
                    \<lparr>base64 = (case imageBytes img of None \<Rightarrow> Undefined | Some bytes \<Rightarrow> Str bytes),
                     error = Null\<rparr>)"
  using assms
  by (simp add: generateImage_def generateImage_try_def generateImage_catch_TypeError
        split: option.split)

text \<open>
  C6. The claim: \<open>generateImage\<close> never raises, and exactly one field of its result is
  populated. The first half holds for every outcome of the remote call. The second half
  fails in one case, and only there: when the first entry of the list carries an image
  without \<open>imageBytes\<close>, the code returns \<open>{ base64: undefined, error: null }\<close>, neither
  field populated. In every other case exactly one field is populated.
\<close>

theorem generateImage_total_populated:
  "\<exists>r. generateImage generateImages' prompt' aspectRatio' = Inr r \<and>
       (if \<exists>response g rest img.
             generateImages' (generateImage_request prompt' aspectRatio') = Inr response
             \<and> generatedImages response = Some (g # rest)
             \<and> image g = Some img \<and> imageBytes img = None
        then r = \<lparr>base64 = Undefined, error = Null\<rparr>
        else populated (base64 r) \<noteq> populated (error r))"
proof (cases "generateImages' (generateImage_request prompt' aspectRatio')")
  case (Inl err)
  then show ?thesis
    using generateImage_catch_one_populated [of err]
    by (simp add: generateImage_def generateImage_try_def)
next
  case (Inr response)
  show ?thesis
  proof (cases "generatedImages response")
    case None
    with Inr generateImage_no_image [of generateImages' prompt' aspectRatio' response]
    show ?thesis by simp
  next
    case (Some imgs)
    show ?thesis
    proof (cases imgs)
      case Nil
      with Inr Some generateImage_no_image [of generateImages' prompt' aspectRatio' response]
      show ?thesis by simp
    next
      case (Cons g rest)
      with Inr Some generateImage_first_entry [of generateImages' prompt' aspectRatio' response g rest]
      show ?thesis
        by (auto split: option.splits)
    qed
  qed
qed

theorem generateImage_total_populated_witness:
  "generateImage (\<lambda>req. Inr \<lparr>generatedImages = Some [\<lparr>image = Some \<lparr>imageBytes = None\<rparr>\<rparr>]\<rparr>)
       (js ''a red fox'') (js ''16:9'')
     = Inr \<lparr>base64 = Undefined, error = Null\<rparr>
   \<and> \<not> populated (base64 \<lparr>base64 = Undefined, error = Null\<rparr>)
   \<and> \<not> populated (error \<lparr>base64 = Undefined, error = Null\<rparr>)"
  using generateImage_total_populated [of
      "\<lambda>req. Inr \<lparr>generatedImages = Some [\<lparr>image = Some \<lparr>imageBytes = None\<rparr>\<rparr>]\<rparr>"
      "js ''a red fox''" "js ''16:9''"]
  by auto




text \<open>
  C8. When the remote call raises, \<open>generateImage\<close> returns: with the safety-blocked
  message if the raised value is an \<open>Error\<close> whose message contains \<open>sensitive words\<close> or
  \<open>Responsible AI practices\<close>, and with \<open>Image generation failed.\<close> for any other raised
  value.
\<close>

theorem generateImage_raised:
  assumes "generateImages' (generateImage_request prompt' aspectRatio') = Inl err"
  shows "generateImage generateImages' prompt' aspectRatio' =
           Inr (if \<exists>m. err = Error_instance m \<and>
                        (String_includes m (js ''sensitive words'')
                         \<or> String_includes m (js ''Responsible AI practices''))
                then \<lparr>base64 = Null,
                      error = Str (js ''This prompt was blocked for safety reasons. Please try rephrasing it.'')\<rparr>
                else \<lparr>base64 = Null, error = Str (js ''Image generation failed.'')\<rparr>)"
  using assms
  by (simp add: generateImage_def generateImage_try_def generateImage_catch_cases)

theorem generateImage_raised_witness:
  "generateImage (\<lambda>req. Inl (Error_instance (js ''The prompt contains sensitive words.'')))
       (js ''a red fox'') (js ''16:9'')
     = Inr \<lparr>base64 = Null,
            error = Str (js ''This prompt was blocked for safety reasons. Please try rephrasing it.'')\<rparr>
   \<and> generateImage (\<lambda>req. Inl (Error_instance (js ''fetch failed''))) (js ''a red fox'') (js ''16:9'')
     = Inr \<lparr>base64 = Null, error = Str (js ''Image generation failed.'')\<rparr>
   \<and> generateImage (\<lambda>req. Inl Non_Error) (js ''a red fox'') (js ''16:9'')
     = Inr \<lparr>base64 = Null, error = Str (js ''Image generation failed.'')\<rparr>"
  using
    generateImage_raised [of "\<lambda>req. Inl (Error_instance (js ''The prompt contains sensitive words.''))"
      "js ''a red fox''" "js ''16:9''" "Error_instance (js ''The prompt contains sensitive words.'')"]
    generateImage_raised [of "\<lambda>req. Inl (Error_instance (js ''fetch failed''))"
      "js ''a red fox''" "js ''16:9''" "Error_instance (js ''fetch failed'')"]
    generateImage_raised [of "\<lambda>req. Inl Non_Error" "js ''a red fox''" "js ''16:9''" Non_Error]
  by (simp add: String_includes_def sublist_code)

subsection \<open>generatePrompts\<close>

lemma js_Cons: "js (c # cs) = code_unit c # js cs"
  by (simp add: js_def)

lemma js_append: "js (a @ b) = js a @ js b"
  by (simp add: js_def)

lemmas lex_eval = js_Cons code_unit_def is_json_whitespace_def is_digit_def digit_value_def
  hex_value_def escape_unit_def digits_value_def lex_int_def lex_frac_def lex_exp_def
  lex_exp_sign_def lex_number_def JSON_parse_def

lemma Nil_eq_js [simp]: "[] = js a \<longleftrightarrow> a = []"
  by (simp add: js_def)

lemma JSON_parse_Nil: "JSON_parse [] = None"
  by (simp add: JSON_parse_def)

lemma empty_response_message_known:
  "generatePrompts_catch (Error_instance (empty_response_message fr))
     = Error_instance (empty_response_message fr)"
  by (simp add: generatePrompts_catch_def empty_response_message_def String_startsWith_def)

lemma catch_parseError_known:
  "generatePrompts_catch (catch_parseError e) = catch_parseError e"
  by (simp add: generatePrompts_catch_def catch_parseError_def String_startsWith_def)

lemma generatePrompts_empty:
  assumes "generateContent' (generatePrompts_request script style niche) = Inr response"
    and "response_text response = None \<or> response_text response = Some []"
  shows "generatePrompts generateContent' script style niche
           = Inl (Error_instance (empty_response_message (first_finishReason response)))"
  using assms
  by (auto simp: generatePrompts_def generatePrompts_try_def empty_response_message_known)

lemma generatePrompts_parsed:
  assumes "generateContent' (generatePrompts_request script style niche) = Inr response"
    and "response_text response = Some jsonText"
    and "jsonText \<noteq> []"
  shows "generatePrompts generateContent' script style niche =
           (case parse_response jsonText (build_requestPrompt script style niche) of
              Inl parseError \<Rightarrow> Inl (catch_parseError parseError)
            | Inr r \<Rightarrow> Inr r)"
  using assms
  by (auto simp: generatePrompts_def generatePrompts_try_def catch_parseError_known
           split: sum.splits)

text \<open>
  C4. When the response text is empty or undefined, \<open>generatePrompts\<close> raises, and the
  message is chosen by the finish reason of the first candidate: the safety message for
  \<open>SAFETY\<close>, the recitation message for \<open>RECITATION\<close>, the stopped-unexpectedly message
  naming the reason for any other reason that is present (a non-empty string) and not
  \<open>STOP\<close>, and the generic empty-response message otherwise.
\<close>

theorem generatePrompts_empty_response:
  assumes "generateContent' (generatePrompts_request script style niche) = Inr response"
    and "response_text response = None \<or> response_text response = Some []"
  shows "(first_finishReason response = Some (js ''SAFETY'') \<longrightarrow>
            generatePrompts generateContent' script style niche
              = Inl (Error_instance (js (''The script or style contains content that violates safety ''
                  @ ''policies. Please revise your input and try again.''))))
       \<and> (first_finishReason response = Some (js ''RECITATION'') \<longrightarrow>
            generatePrompts generateContent' script style niche
              = Inl (Error_instance (js (''The response was blocked due to potential recitation ''
                  @ ''issues. Try rephrasing your script.''))))
       \<and> (\<forall>reason. first_finishReason response = Some reason \<and> reason \<noteq> []
              \<and> reason \<noteq> js ''SAFETY'' \<and> reason \<noteq> js ''RECITATION'' \<and> reason \<noteq> js ''STOP'' \<longrightarrow>
            generatePrompts generateContent' script style niche
              = Inl (Error_instance (js ''Prompt generation stopped unexpectedly. Reason: '' @ reason
                  @ js ''. Please check your script content.'')))
       \<and> (first_finishReason response = None \<or> first_finishReason response = Some []
            \<or> first_finishReason response = Some (js ''STOP'') \<longrightarrow>
            generatePrompts generateContent' script style niche
              = Inl (Error_instance (js (''The AI returned an empty response. This can happen if the ''
                  @ ''script is too short, vague, or contains content that goes against the safety ''
                  @ ''policy.''))))"
  using generatePrompts_empty [of generateContent' script style niche response] assms
  by (auto simp: empty_response_message_def)

theorem generatePrompts_empty_response_witness:
  "generatePrompts
     (\<lambda>req. Inr \<lparr>response_text = None, candidates = Some [\<lparr>finishReason = Some (js ''SAFETY'')\<rparr>]\<rparr>)
     (js ''a script'') (js ''noir'') (js ''history'')
     = Inl (Error_instance (js (''The script or style contains content that violates safety ''
         @ ''policies. Please revise your input and try again.'')))
   \<and> generatePrompts
     (\<lambda>req. Inr \<lparr>response_text = Some [], candidates = Some [\<lparr>finishReason = Some (js ''RECITATION'')\<rparr>]\<rparr>)
     (js ''a script'') (js ''noir'') (js ''history'')
     = Inl (Error_instance (js (''The response was blocked due to potential recitation ''
         @ ''issues. Try rephrasing your script.'')))
   \<and> generatePrompts
     (\<lambda>req. Inr \<lparr>response_text = None, candidates = Some [\<lparr>finishReason = Some (js ''MAX_TOKENS'')\<rparr>]\<rparr>)
     (js ''a script'') (js ''noir'') (js ''history'')
     = Inl (Error_instance (js (''Prompt generation stopped unexpectedly. Reason: MAX_TOKENS. ''
         @ ''Please check your script content.'')))
   \<and> generatePrompts
     (\<lambda>req. Inr \<lparr>response_text = None, candidates = None\<rparr>)
     (js ''a script'') (js ''noir'') (js ''history'')
     = Inl (Error_instance (js (''The AI returned an empty response. This can happen if the ''
         @ ''script is too short, vague, or contains content that goes against the safety ''
         @ ''policy.'')))"
  using
    generatePrompts_empty_response [of
      "\<lambda>req. Inr \<lparr>response_text = None, candidates = Some [\<lparr>finishReason = Some (js ''SAFETY'')\<rparr>]\<rparr>"
      "js ''a script''" "js ''noir''" "js ''history''"
      "\<lparr>response_text = None, candidates = Some [\<lparr>finishReason = Some (js ''SAFETY'')\<rparr>]\<rparr>"]
    generatePrompts_empty_response [of
      "\<lambda>req. Inr \<lparr>response_text = Some [], candidates = Some [\<lparr>finishReason = Some (js ''RECITATION'')\<rparr>]\<rparr>"
      "js ''a script''" "js ''noir''" "js ''history''"
      "\<lparr>response_text = Some [], candidates = Some [\<lparr>finishReason = Some (js ''RECITATION'')\<rparr>]\<rparr>"]
    generatePrompts_empty_response [of
      "\<lambda>req. Inr \<lparr>response_text = None, candidates = Some [\<lparr>finishReason = Some (js ''MAX_TOKENS'')\<rparr>]\<rparr>"
      "js ''a script''" "js ''noir''" "js ''history''"
      "\<lparr>response_text = None, candidates = Some [\<lparr>finishReason = Some (js ''MAX_TOKENS'')\<rparr>]\<rparr>"]
    generatePrompts_empty_response [of
      "\<lambda>req. Inr \<lparr>response_text = None, candidates = None\<rparr>"
      "js ''a script''" "js ''noir''" "js ''history''"
      "\<lparr>response_text = None, candidates = None\<rparr>"]
  by (simp add: first_finishReason_def js_append [symmetric])

text \<open>
  C5. An error raised inside the \<open>try\<close> block of \<open>generatePrompts\<close> whose message begins
  with \<open>The AI returned\<close>, \<open>The script or style\<close>, \<open>The response was blocked\<close> or
  \<open>Prompt generation stopped\<close> reaches the caller as it is, its message unchanged. Every
  other raised value is replaced by the one generic message. So whenever \<open>generatePrompts\<close>
  fails, the caller sees either such a known error, the one that was raised, or the generic
  message, and nothing else.
\<close>

theorem generatePrompts_error_surface:
  "(\<forall>m. generatePrompts_try generateContent' script style niche = Inl (Error_instance m)
        \<and> (String_startsWith m (js ''The AI returned'')
           \<or> String_startsWith m (js ''The script or style'')
           \<or> String_startsWith m (js ''The response was blocked'')
           \<or> String_startsWith m (js ''Prompt generation stopped'')) \<longrightarrow>
        generatePrompts generateContent' script style niche = Inl (Error_instance m))
   \<and> (\<forall>error'. generatePrompts_try generateContent' script style niche = Inl error'
        \<and> \<not> (\<exists>m. error' = Error_instance m
                \<and> (String_startsWith m (js ''The AI returned'')
                   \<or> String_startsWith m (js ''The script or style'')
                   \<or> String_startsWith m (js ''The response was blocked'')
                   \<or> String_startsWith m (js ''Prompt generation stopped''))) \<longrightarrow>
        generatePrompts generateContent' script style niche
          = Inl (Error_instance
              (js ''Failed to generate prompts from the script due to an unexpected AI service error.'')))
   \<and> (\<forall>e. generatePrompts generateContent' script style niche = Inl e \<longrightarrow>
        (\<exists>m. e = Error_instance m
             \<and> (String_startsWith m (js ''The AI returned'')
                \<or> String_startsWith m (js ''The script or style'')
                \<or> String_startsWith m (js ''The response was blocked'')
                \<or> String_startsWith m (js ''Prompt generation stopped''))
             \<and> generatePrompts_try generateContent' script style niche = Inl (Error_instance m))
        \<or> e = Error_instance
              (js ''Failed to generate prompts from the script due to an unexpected AI service error.''))"
proof (intro conjI allI impI)
  fix m
  assume "generatePrompts_try generateContent' script style niche = Inl (Error_instance m)
        \<and> (String_startsWith m (js ''The AI returned'')
           \<or> String_startsWith m (js ''The script or style'')
           \<or> String_startsWith m (js ''The response was blocked'')
           \<or> String_startsWith m (js ''Prompt generation stopped''))"
  then show "generatePrompts generateContent' script style niche = Inl (Error_instance m)"
    by (auto simp: generatePrompts_def generatePrompts_catch_def)
next
  fix error'
  assume "generatePrompts_try generateContent' script style niche = Inl error'
        \<and> \<not> (\<exists>m. error' = Error_instance m
                \<and> (String_startsWith m (js ''The AI returned'')
                   \<or> String_startsWith m (js ''The script or style'')
                   \<or> String_startsWith m (js ''The response was blocked'')
                   \<or> String_startsWith m (js ''Prompt generation stopped'')))"
  then show "generatePrompts generateContent' script style niche
          = Inl (Error_instance
              (js ''Failed to generate prompts from the script due to an unexpected AI service error.''))"
    by (cases error') (auto simp: generatePrompts_def generatePrompts_catch_def)
next
  fix e
  assume a: "generatePrompts generateContent' script style niche = Inl e"
  show "(\<exists>m. e = Error_instance m
             \<and> (String_startsWith m (js ''The AI returned'')
                \<or> String_startsWith m (js ''The script or style'')
                \<or> String_startsWith m (js ''The response was blocked'')
                \<or> String_startsWith m (js ''Prompt generation stopped''))
             \<and> generatePrompts_try generateContent' script style niche = Inl (Error_instance m))
        \<or> e = Error_instance
              (js ''Failed to generate prompts from the script due to an unexpected AI service error.'')"
  proof (cases "generatePrompts_try generateContent' script style niche")
    case (Inl error')
    with a have e: "e = generatePrompts_catch error'"
      by (simp add: generatePrompts_def)
    show ?thesis
    proof (cases error')
      case (Error_instance m)
      with e Inl show ?thesis
        by (auto simp: generatePrompts_catch_def)
    next
      case Non_Error
      with e show ?thesis
        by (simp add: generatePrompts_catch_def)
    qed
  next
    case (Inr r)
    with a show ?thesis
      by (simp add: generatePrompts_def)
  qed
qed

theorem generatePrompts_error_surface_witness:
  "generatePrompts (\<lambda>req. Inl (Error_instance (js ''The AI returned nothing we can use'')))
       (js ''a script'') (js ''noir'') (js ''history'')
     = Inl (Error_instance (js ''The AI returned nothing we can use''))
   \<and> generatePrompts (\<lambda>req. Inl (Error_instance (js ''fetch failed'')))
       (js ''a script'') (js ''noir'') (js ''history'')
     = Inl (Error_instance
         (js ''Failed to generate prompts from the script due to an unexpected AI service error.''))
   \<and> generatePrompts (\<lambda>req. Inl Non_Error) (js ''a script'') (js ''noir'') (js ''history'')
     = Inl (Error_instance
         (js ''Failed to generate prompts from the script due to an unexpected AI service error.''))"
proof -
  have t: "\<And>err. generatePrompts_try (\<lambda>req. Inl err) (js ''a script'') (js ''noir'') (js ''history'')
      = Inl err"
    by (simp add: generatePrompts_try_def)
  have k: "String_startsWith (js ''The AI returned nothing we can use'') (js ''The AI returned'')"
    by (simp add: String_startsWith_def)
  have u: "\<not> (\<exists>m. Error_instance (js ''fetch failed'') = Error_instance m
                \<and> (String_startsWith m (js ''The AI returned'')
                   \<or> String_startsWith m (js ''The script or style'')
                   \<or> String_startsWith m (js ''The response was blocked'')
                   \<or> String_startsWith m (js ''Prompt generation stopped'')))"
    by (simp add: String_startsWith_def)
  have n: "\<not> (\<exists>m. Non_Error = Error_instance m
                \<and> (String_startsWith m (js ''The AI returned'')
                   \<or> String_startsWith m (js ''The script or style'')
                   \<or> String_startsWith m (js ''The response was blocked'')
                   \<or> String_startsWith m (js ''Prompt generation stopped'')))"
    by simp
  from generatePrompts_error_surface [of
      "\<lambda>req. Inl (Error_instance (js ''The AI returned nothing we can use''))"
      "js ''a script''" "js ''noir''" "js ''history''"]
  have "\<forall>m. generatePrompts_try
            (\<lambda>req. Inl (Error_instance (js ''The AI returned nothing we can use'')))
            (js ''a script'') (js ''noir'') (js ''history'') = Inl (Error_instance m)
        \<and> (String_startsWith m (js ''The AI returned'')
           \<or> String_startsWith m (js ''The script or style'')
           \<or> String_startsWith m (js ''The response was blocked'')
           \<or> String_startsWith m (js ''Prompt generation stopped'')) \<longrightarrow>
        generatePrompts (\<lambda>req. Inl (Error_instance (js ''The AI returned nothing we can use'')))
            (js ''a script'') (js ''noir'') (js ''history'') = Inl (Error_instance m)"
    by (rule conjunct1)
  with t k have 1: "generatePrompts
      (\<lambda>req. Inl (Error_instance (js ''The AI returned nothing we can use'')))
      (js ''a script'') (js ''noir'') (js ''history'')
     = Inl (Error_instance (js ''The AI returned nothing we can use''))"
    by blast
  from generatePrompts_error_surface [of "\<lambda>req. Inl (Error_instance (js ''fetch failed''))"
      "js ''a script''" "js ''noir''" "js ''history''"]
  have "\<forall>error'. generatePrompts_try (\<lambda>req. Inl (Error_instance (js ''fetch failed'')))
            (js ''a script'') (js ''noir'') (js ''history'') = Inl error'
        \<and> \<not> (\<exists>m. error' = Error_instance m
                \<and> (String_startsWith m (js ''The AI returned'')
                   \<or> String_startsWith m (js ''The script or style'')
                   \<or> String_startsWith m (js ''The response was blocked'')
                   \<or> String_startsWith m (js ''Prompt generation stopped''))) \<longrightarrow>
        generatePrompts (\<lambda>req. Inl (Error_instance (js ''fetch failed'')))
            (js ''a script'') (js ''noir'') (js ''history'')
          = Inl (Error_instance
              (js ''Failed to generate prompts from the script due to an unexpected AI service error.''))"
    by (rule conjunct2 [THEN conjunct1])
  with t u have 2: "generatePrompts (\<lambda>req. Inl (Error_instance (js ''fetch failed'')))
       (js ''a script'') (js ''noir'') (js ''history'')
     = Inl (Error_instance
         (js ''Failed to generate prompts from the script due to an unexpected AI service error.''))"
    by blast
  from generatePrompts_error_surface [of "\<lambda>req. Inl Non_Error"
      "js ''a script''" "js ''noir''" "js ''history''"]
  have "\<forall>error'. generatePrompts_try (\<lambda>req. Inl Non_Error)
            (js ''a script'') (js ''noir'') (js ''history'') = Inl error'
        \<and> \<not> (\<exists>m. error' = Error_instance m
                \<and> (String_startsWith m (js ''The AI returned'')
                   \<or> String_startsWith m (js ''The script or style'')
                   \<or> String_startsWith m (js ''The response was blocked'')
                   \<or> String_startsWith m (js ''Prompt generation stopped''))) \<longrightarrow>
        generatePrompts (\<lambda>req. Inl Non_Error)
            (js ''a script'') (js ''noir'') (js ''history'')
          = Inl (Error_instance
              (js ''Failed to generate prompts from the script due to an unexpected AI service error.''))"
    by (rule conjunct2 [THEN conjunct1])
  with t n have 3: "generatePrompts (\<lambda>req. Inl Non_Error)
       (js ''a script'') (js ''noir'') (js ''history'')
     = Inl (Error_instance
         (js ''Failed to generate prompts from the script due to an unexpected AI service error.''))"
    by blast
  from 1 2 3 show ?thesis
    by (intro conjI)
qed

lemma get_prompts_array_truthy:
  "get_prompts result = Inr (Some v) \<Longrightarrow> truthy result"
  by (cases result) simp_all

lemma parse_response_array:
  assumes "JSON_parse jsonText = Some result"
    and "get_prompts result = Inr (Some (JArray ps))"
  shows "parse_response jsonText rp = Inr \<lparr>prompts = ps, requestPrompt = rp\<rparr>"
  using assms get_prompts_array_truthy [of result "JArray ps"]
  by (simp add: parse_response_def)

lemma parse_response_fails:
  assumes "JSON_parse jsonText = Some result"
    and "\<forall>ps. get_prompts result \<noteq> Inr (Some (JArray ps))"
  shows "\<exists>e. parse_response jsonText rp = Inl e"
  using assms
  by (auto simp: parse_response_def split: sum.splits option.splits json.splits)

lemma JSON_parse_nonempty: "JSON_parse jsonText = Some result \<Longrightarrow> jsonText \<noteq> []"
  using JSON_parse_Nil by auto

lemma JSON_parse_foo:
  \<open>JSON_parse (js ''{"foo":1}'') = Some (JObject [(js ''foo'', JNumber 1)])\<close>
  by (simp add: lex_eval)

lemma JSON_parse_a_b:
  \<open>JSON_parse (js ''{"prompts":["a","b"]}'')
     = Some (JObject [(js ''prompts'', JArray [JString (js ''a''), JString (js ''b'')])])\<close>
  by (simp add: lex_eval)

lemma JSON_parse_mixed:
  \<open>JSON_parse (js ''{"prompts":[1,"x",null]}'')
     = Some (JObject [(js ''prompts'', JArray [JNumber 1, JString (js ''x''), JNull])])\<close>
  by (simp add: lex_eval)

lemma JSON_parse_empty_array:
  \<open>JSON_parse (js ''{"prompts":[]}'') = Some (JObject [(js ''prompts'', JArray [])])\<close>
  by (simp add: lex_eval)

text \<open>
  C1. The claim: a non-empty response text that parses as JSON but has no array-valued
  \<open>prompts\<close> field makes \<open>generatePrompts\<close> fail with the invalid-structure message.
  The code throws that message inside the inner \<open>try\<close> block, where the
  \<open>catch (parseError)\<close> of the same block catches it: for every such text the caller
  gets the not-valid-JSON message instead.
\<close>

theorem generatePrompts_invalid_structure_masked:
  assumes "generateContent' (generatePrompts_request script style niche) = Inr response"
    and "response_text response = Some jsonText"
    and "JSON_parse jsonText = Some result"
    and "\<forall>ps. get_prompts result \<noteq> Inr (Some (JArray ps))"
  shows "generatePrompts generateContent' script style niche
           = Inl (Error_instance (js (''The AI returned a response that was not valid JSON. ''
               @ ''This may be a temporary issue, please try again.'')))"
proof -
  from assms(3,4) obtain e where "parse_response jsonText (build_requestPrompt script style niche) = Inl e"
    using parse_response_fails by blast
  with generatePrompts_parsed [of generateContent' script style niche response jsonText]
    assms(1,2) JSON_parse_nonempty [OF assms(3)]
  show ?thesis
    by (simp add: catch_parseError_def)
qed

theorem generatePrompts_invalid_structure_masked_witness:
  \<open>generatePrompts (\<lambda>req. Inr \<lparr>response_text = Some (js ''{"foo":1}''), candidates = None\<rparr>)
      (js ''a script'') (js ''noir'') (js ''history'')
     = Inl (Error_instance (js (''The AI returned a response that was not valid JSON. ''
         @ ''This may be a temporary issue, please try again.'')))
   \<and> Inl (Error_instance (js (''The AI returned a response that was not valid JSON. ''
         @ ''This may be a temporary issue, please try again.'')))
     \<noteq> (Inl (Error_instance
          (js ''The AI returned a response with an invalid structure. Please try again.''))
        :: thrown + prompts_result)\<close>
  using generatePrompts_invalid_structure_masked [of
      \<open>\<lambda>req. Inr \<lparr>response_text = Some (js ''{"foo":1}''), candidates = None\<rparr>\<close>
      "js ''a script''" "js ''noir''" "js ''history''"
      \<open>\<lparr>response_text = Some (js ''{"foo":1}''), candidates = None\<rparr>\<close>
      \<open>js ''{"foo":1}''\<close> "JObject [(js ''foo'', JNumber 1)]"]
    JSON_parse_foo
  by simp

text \<open>
  C2. For every script, style and niche, when the response text is
  \<open>{"prompts":["a","b"]}\<close>, \<open>generatePrompts\<close> returns the prompts \<open>["a","b"]\<close> and a
  \<open>requestPrompt\<close> that is the instruction text sent as the contents of the request.
\<close>

theorem generatePrompts_example:
  assumes "generateContent' (generatePrompts_request script style niche) = Inr response"
    and \<open>response_text response = Some (js ''{"prompts":["a","b"]}'')\<close>
  shows "generatePrompts generateContent' script style niche
           = Inr \<lparr>prompts = [JString (js ''a''), JString (js ''b'')],
                  requestPrompt = build_requestPrompt script style niche\<rparr>
       \<and> contents (generatePrompts_request script style niche)
           = Text_contents (build_requestPrompt script style niche)"
proof -
  have "parse_response (js ''{\"prompts\":[\"a\",\"b\"]}'') (build_requestPrompt script style niche)
          = Inr \<lparr>prompts = [JString (js ''a''), JString (js ''b'')],
                 requestPrompt = build_requestPrompt script style niche\<rparr>"
    by (rule parse_response_array [OF JSON_parse_a_b]) simp
  with generatePrompts_parsed [of generateContent' script style niche response, OF assms]
  show ?thesis
    by (simp add: generatePrompts_request_def)
qed

theorem generatePrompts_example_witness:
  \<open>generatePrompts (\<lambda>req. Inr \<lparr>response_text = Some (js ''{"prompts":["a","b"]}''), candidates = None\<rparr>)
      (js ''a script'') (js ''noir'') (js ''history'')
     = Inr \<lparr>prompts = [JString (js ''a''), JString (js ''b'')],
            requestPrompt = build_requestPrompt (js ''a script'') (js ''noir'') (js ''history'')\<rparr>
   \<and> contents (generatePrompts_request (js ''a script'') (js ''noir'') (js ''history''))
       = Text_contents (build_requestPrompt (js ''a script'') (js ''noir'') (js ''history''))\<close>
  using generatePrompts_example [of
      \<open>\<lambda>req. Inr \<lparr>response_text = Some (js ''{"prompts":["a","b"]}''), candidates = None\<rparr>\<close>
      "js ''a script''" "js ''noir''" "js ''history''"
      \<open>\<lparr>response_text = Some (js ''{"prompts":["a","b"]}''), candidates = None\<rparr>\<close>]
  by simp

text \<open>
  C10. The elements of the parsed \<open>prompts\<close> array are not checked: for every response
  text that is valid JSON with an array-valued \<open>prompts\<close> field, whatever the array holds
  (nothing, numbers, \<open>null\<close>), \<open>generatePrompts\<close> succeeds and returns that array
  unchanged.
\<close>

theorem generatePrompts_returns_any_array:
  assumes "generateContent' (generatePrompts_request script style niche) = Inr response"
    and "response_text response = Some jsonText"
    and "JSON_parse jsonText = Some result"
    and "get_prompts result = Inr (Some (JArray ps))"
  shows "generatePrompts generateContent' script style niche
           = Inr \<lparr>prompts = ps, requestPrompt = build_requestPrompt script style niche\<rparr>"
  using generatePrompts_parsed [of generateContent' script style niche response jsonText]
    assms(1,2) JSON_parse_nonempty [OF assms(3)] parse_response_array [OF assms(3,4)]
  by simp

theorem generatePrompts_returns_any_array_witness:
  \<open>generatePrompts (\<lambda>req. Inr \<lparr>response_text = Some (js ''{"prompts":[1,"x",null]}''), candidates = None\<rparr>)
      (js ''a script'') (js ''noir'') (js ''history'')
     = Inr \<lparr>prompts = [JNumber 1, JString (js ''x''), JNull],
            requestPrompt = build_requestPrompt (js ''a script'') (js ''noir'') (js ''history'')\<rparr>
   \<and> generatePrompts (\<lambda>req. Inr \<lparr>response_text = Some (js ''{"prompts":[]}''), candidates = None\<rparr>)
      (js ''a script'') (js ''noir'') (js ''history'')
     = Inr \<lparr>prompts = [],
            requestPrompt = build_requestPrompt (js ''a script'') (js ''noir'') (js ''history'')\<rparr>\<close>
  using
    generatePrompts_returns_any_array [of
      \<open>\<lambda>req. Inr \<lparr>response_text = Some (js ''{"prompts":[1,"x",null]}''), candidates = None\<rparr>\<close>
      "js ''a script''" "js ''noir''" "js ''history''"
      \<open>\<lparr>response_text = Some (js ''{"prompts":[1,"x",null]}''), candidates = None\<rparr>\<close>
      \<open>js ''{"prompts":[1,"x",null]}''\<close>
      "JObject [(js ''prompts'', JArray [JNumber 1, JString (js ''x''), JNull])]"
      "[JNumber 1, JString (js ''x''), JNull]"]
    generatePrompts_returns_any_array [of
      \<open>\<lambda>req. Inr \<lparr>response_text = Some (js ''{"prompts":[]}''), candidates = None\<rparr>\<close>
      "js ''a script''" "js ''noir''" "js ''history''"
      \<open>\<lparr>response_text = Some (js ''{"prompts":[]}''), candidates = None\<rparr>\<close>
      \<open>js ''{"prompts":[]}''\<close>
      "JObject [(js ''prompts'', JArray [])]" "[]"]
    JSON_parse_mixed JSON_parse_empty_array
  by simp

subsection \<open>analyzeImageStyle\<close>

lemma rev_dropWhile_takeWhile:
  "xs = rev (dropWhile P (rev xs)) @ rev (takeWhile P (rev xs))"
  by (metis rev_append rev_rev_ident takeWhile_dropWhile_id)

lemma String_trim_decomp:
  "\<exists>l r. t = l @ String_trim t @ r \<and> (\<forall>u\<in>set l. is_white_space u) \<and> (\<forall>u\<in>set r. is_white_space u)"
proof -
  define d where "d = dropWhile is_white_space t"
  have t: "t = takeWhile is_white_space t @ d"
    by (simp add: d_def)
  have d: "d = String_trim t @ rev (takeWhile is_white_space (rev d))"
    unfolding String_trim_def d_def by (rule rev_dropWhile_takeWhile)
  have l: "\<forall>u\<in>set (takeWhile is_white_space t). is_white_space u"
    by (auto dest: set_takeWhileD)
  have r: "\<forall>u\<in>set (rev (takeWhile is_white_space (rev d))). is_white_space u"
    by (auto dest: set_takeWhileD)
  from t d have "t = takeWhile is_white_space t @ String_trim t @ rev (takeWhile is_white_space (rev d))"
    by simp
  with l r show ?thesis by blast
qed

lemma String_trim_last:
  assumes "String_trim t \<noteq> []"
  shows "\<not> is_white_space (last (String_trim t))"
proof -
  let ?e = "dropWhile is_white_space (rev (dropWhile is_white_space t))"
  from assms have ne: "?e \<noteq> []"
    by (simp add: String_trim_def)
  then have "\<not> is_white_space (hd ?e)"
    by (rule hd_dropWhile)
  moreover from ne have "last (rev ?e) = hd ?e"
    by (simp add: last_rev)
  ultimately show ?thesis
    by (simp add: String_trim_def)
qed

lemma String_trim_hd:
  assumes "String_trim t \<noteq> []"
  shows "\<not> is_white_space (hd (String_trim t))"
proof -
  define d where "d = dropWhile is_white_space t"
  have d: "d = String_trim t @ rev (takeWhile is_white_space (rev d))"
    unfolding String_trim_def d_def by (rule rev_dropWhile_takeWhile)
  with assms have "d \<noteq> []" by auto
  then have "\<not> is_white_space (hd d)"
    unfolding d_def by (rule hd_dropWhile)
  moreover from d assms have "hd d = hd (String_trim t)"
    by (metis hd_append2)
  ultimately show ?thesis by simp
qed

lemma String_trim_eq_Nil: "String_trim t = [] \<longleftrightarrow> (\<forall>u\<in>set t. is_white_space u)"
proof
  assume "String_trim t = []"
  with String_trim_decomp [of t] show "\<forall>u\<in>set t. is_white_space u"
    by (metis Un_iff append_Nil set_append)
next
  assume "\<forall>u\<in>set t. is_white_space u"
  then have "dropWhile is_white_space t = []"
    by (simp add: dropWhile_eq_Nil_conv)
  then show "String_trim t = []"
    by (simp only: String_trim_def rev.simps dropWhile.simps)
qed

text \<open>
  C9, as amended. When the remote call returns a response whose text is defined,
  \<open>analyzeImageStyle\<close> returns that text trimmed: the text is the result between two runs
  of white space, a non-empty result neither begins nor ends with white space, and the
  result is empty exactly when the text is empty or all white space. When the remote call
  raises, or the response text is \<open>undefined\<close>, the caller gets the one generic error.
\<close>

theorem analyzeImageStyle_outcome:
  "(\<forall>response t.
      generateContent' (analyzeImageStyle_request imageData) = Inr response
      \<and> response_text response = Some t \<longrightarrow>
        analyzeImageStyle generateContent' imageData = Inr (String_trim t)
        \<and> (\<exists>l r. t = l @ String_trim t @ r
                 \<and> (\<forall>u\<in>set l. is_white_space u) \<and> (\<forall>u\<in>set r. is_white_space u))
        \<and> (String_trim t \<noteq> [] \<longrightarrow>
              \<not> is_white_space (hd (String_trim t)) \<and> \<not> is_white_space (last (String_trim t)))
        \<and> ((String_trim t = []) = (\<forall>u\<in>set t. is_white_space u)))
   \<and> ((\<exists>err. generateContent' (analyzeImageStyle_request imageData) = Inl err)
       \<or> (\<exists>response. generateContent' (analyzeImageStyle_request imageData) = Inr response
                      \<and> response_text response = None) \<longrightarrow>
        analyzeImageStyle generateContent' imageData
          = Inl (Error_instance (js ''Failed to analyze the reference image style.'')))"
proof (intro conjI allI impI)
  fix response t
  assume a: "generateContent' (analyzeImageStyle_request imageData) = Inr response
      \<and> response_text response = Some t"
  then show "analyzeImageStyle generateContent' imageData = Inr (String_trim t)"
    by (simp add: analyzeImageStyle_def analyzeImageStyle_try_def)
  show "\<exists>l r. t = l @ String_trim t @ r
          \<and> (\<forall>u\<in>set l. is_white_space u) \<and> (\<forall>u\<in>set r. is_white_space u)"
    by (rule String_trim_decomp)
  show "(String_trim t = []) = (\<forall>u\<in>set t. is_white_space u)"
    by (rule String_trim_eq_Nil)
  assume "String_trim t \<noteq> []"
  then show "\<not> is_white_space (hd (String_trim t))" "\<not> is_white_space (last (String_trim t))"
    by (rule String_trim_hd, rule String_trim_last)
next
  assume "(\<exists>err. generateContent' (analyzeImageStyle_request imageData) = Inl err)
       \<or> (\<exists>response. generateContent' (analyzeImageStyle_request imageData) = Inr response
                      \<and> response_text response = None)"
  then show "analyzeImageStyle generateContent' imageData
          = Inl (Error_instance (js ''Failed to analyze the reference image style.''))"
    by (auto simp: analyzeImageStyle_def analyzeImageStyle_try_def)
qed

lemma String_trim_example:
  "String_trim (js '' moody, high contrast \<newline>'') = js ''moody, high contrast''"
  by (simp add: String_trim_def js_Cons code_unit_def is_white_space_def)

theorem analyzeImageStyle_outcome_witness:
  "analyzeImageStyle
     (\<lambda>req. Inr \<lparr>response_text = Some (js '' moody, high contrast \<newline>''), candidates = None\<rparr>)
     \<lparr>imageData_base64 = js ''QUJD'', imageData_mimeType = js ''image/png''\<rparr>
     = Inr (js ''moody, high contrast'')
   \<and> analyzeImageStyle (\<lambda>req. Inr \<lparr>response_text = None, candidates = None\<rparr>)
     \<lparr>imageData_base64 = js ''QUJD'', imageData_mimeType = js ''image/png''\<rparr>
     = Inl (Error_instance (js ''Failed to analyze the reference image style.''))
   \<and> analyzeImageStyle (\<lambda>req. Inl (Error_instance (js ''fetch failed'')))
     \<lparr>imageData_base64 = js ''QUJD'', imageData_mimeType = js ''image/png''\<rparr>
     = Inl (Error_instance (js ''Failed to analyze the reference image style.''))"
  using
    analyzeImageStyle_outcome [of
      "\<lambda>req. Inr \<lparr>response_text = Some (js '' moody, high contrast \<newline>''), candidates = None\<rparr>"
      "\<lparr>imageData_base64 = js ''QUJD'', imageData_mimeType = js ''image/png''\<rparr>"]
    analyzeImageStyle_outcome [of
      "\<lambda>req. Inr \<lparr>response_text = None, candidates = None\<rparr>"
      "\<lparr>imageData_base64 = js ''QUJD'', imageData_mimeType = js ''image/png''\<rparr>"]
    analyzeImageStyle_outcome [of
      "\<lambda>req. Inl (Error_instance (js ''fetch failed''))"
      "\<lparr>imageData_base64 = js ''QUJD'', imageData_mimeType = js ''image/png''\<rparr>"]
    String_trim_example
  by simp

text \<open>
  C9 as stated fails: an empty response text, or one of white space only, is no failure.
  The remote call succeeds and \<open>analyzeImageStyle\<close> returns the empty string.
\<close>

theorem analyzeImageStyle_empty_counterexample:
  "analyzeImageStyle (\<lambda>req. Inr \<lparr>response_text = Some [], candidates = None\<rparr>)
     \<lparr>imageData_base64 = js ''QUJD'', imageData_mimeType = js ''image/png''\<rparr>
     = Inr []
   \<and> analyzeImageStyle (\<lambda>req. Inr \<lparr>response_text = Some (js '' \<newline>''), candidates = None\<rparr>)
     \<lparr>imageData_base64 = js ''QUJD'', imageData_mimeType = js ''image/png''\<rparr>
     = Inr []"
  by (simp add: analyzeImageStyle_def analyzeImageStyle_try_def String_trim_def
        js_Cons code_unit_def is_white_space_def)

subsection \<open>The instruction text\<close>

lemma sublist_append_last:
  assumes "sublist l (a @ b)" and "a \<noteq> []" and "last a \<notin> set l"
  shows "sublist l a \<or> sublist l b"
proof -
  from assms(1) consider "sublist l a" | "sublist l b"
    | xs1 xs2 where "l = xs1 @ xs2" "suffix xs1 a" "prefix xs2 b"
    by (auto simp: sublist_append)
  then show ?thesis
  proof cases
    case 3
    show ?thesis
    proof (cases "xs1 = []")
      case True
      with 3 have "prefix l b" by simp
      then show ?thesis by (auto simp: sublist_altdef')
    next
      case False
      with 3(2) have "last xs1 = last a"
        by (auto simp: suffix_def)
      moreover from False 3(1) have "last xs1 \<in> set l" by simp
      ultimately show ?thesis using assms(3) by simp
    qed
  qed simp_all
qed

lemma sublist_append_hd:
  assumes "sublist l (a @ b)" and "b \<noteq> []" and "hd b \<notin> set l"
  shows "sublist l a \<or> sublist l b"
proof -
  from assms(1) consider "sublist l a" | "sublist l b"
    | xs1 xs2 where "l = xs1 @ xs2" "suffix xs1 a" "prefix xs2 b"
    by (auto simp: sublist_append)
  then show ?thesis
  proof cases
    case 3
    show ?thesis
    proof (cases "xs2 = []")
      case True
      with 3 have "suffix l a" by simp
      then show ?thesis by (auto simp: sublist_altdef)
    next
      case False
      with 3(3) have "hd xs2 = hd b"
        by (auto simp: prefix_def)
      moreover from False 3(1) have "hd xs2 \<in> set l" by simp
      ultimately show ?thesis using assms(3) by simp
    qed
  qed simp_all
qed

lemma set_js: "set (js s) = code_unit ` set s"
  by (simp add: js_def)

lemma last_js: "s \<noteq> [] \<Longrightarrow> last (js s) = code_unit (last s)"
  by (simp add: js_def last_map)

lemma hd_js: "s \<noteq> [] \<Longrightarrow> hd (js s) = code_unit (hd s)"
  by (simp add: js_def hd_map)

lemma code_unit_in_js [simp]: "code_unit c \<in> set (js s) \<longleftrightarrow> c \<in> set s"
  by (auto simp: set_js)

lemma label_not_in_head:
  "\<not> sublist ''**Topic/Niche:**'' (instruction_head @ ''- **Visual Style:** '')"
  unfolding instruction_head_def by (simp add: sublist_code)

lemma label_not_in_middle: "\<not> sublist ''**Topic/Niche:**'' instruction_middle"
  unfolding instruction_middle_def by (simp add: sublist_code)

lemma label_not_in_tail: "\<not> sublist ''**Topic/Niche:**'' instruction_tail"
  unfolding instruction_tail_def by (simp add: sublist_code)

lemma last_head: "last (instruction_head @ ''- **Visual Style:** '') = CHR '' ''"
  by simp

lemma hd_middle: "instruction_middle \<noteq> [] \<and> hd instruction_middle = CHR ''\<newline>''"
  unfolding instruction_middle_def by simp

lemma length_middle: "length instruction_middle = 1700"
  unfolding instruction_middle_def by simp

lemma last_middle: "last instruction_middle = CHR ''\<newline>''"
proof -
  have "instruction_middle ! 1699 = CHR ''\<newline>''"
    unfolding instruction_middle_def by simp
  moreover have "last instruction_middle = instruction_middle ! (length instruction_middle - 1)"
    using hd_middle by (simp add: last_conv_nth)
  ultimately show ?thesis
    by (simp only: length_middle) simp
qed

lemma hd_tail: "instruction_tail \<noteq> [] \<and> hd instruction_tail = CHR ''\<newline>''"
  unfolding instruction_tail_def by simp

lemma requestPrompt_no_niche:
  "build_requestPrompt script style [] =
     js (instruction_head @ ''- **Visual Style:** '') @ style @ js instruction_middle
       @ script @ js instruction_tail"
  by (simp add: build_requestPrompt_def js_append)

lemma niche_label_only_from_caller:
  assumes "sublist (js ''**Topic/Niche:**'') (build_requestPrompt script style [])"
  shows "sublist (js ''**Topic/Niche:**'') style \<or> sublist (js ''**Topic/Niche:**'') script"
proof -
  let ?l = "js ''**Topic/Niche:**''"
  let ?h = "js (instruction_head @ ''- **Visual Style:** '')"
  have sp: "code_unit CHR '' '' \<notin> set ?l" and nl: "code_unit CHR ''\<newline>'' \<notin> set ?l"
    by simp_all
  have h: "\<not> sublist ?l ?h"
    using label_not_in_head by simp
  have m: "\<not> sublist ?l (js instruction_middle)"
    using label_not_in_middle by simp
  have t: "\<not> sublist ?l (js instruction_tail)"
    using label_not_in_tail by simp
  have "?h \<noteq> []" and "last ?h \<notin> set ?l"
    using sp by (simp_all add: last_js last_head del: code_unit_in_js last_appendR)
  with assms h have 1: "sublist ?l (style @ js instruction_middle @ script @ js instruction_tail)"
    unfolding requestPrompt_no_niche using sublist_append_last by blast
  have "js instruction_middle @ script @ js instruction_tail \<noteq> []"
    and "hd (js instruction_middle @ script @ js instruction_tail) \<notin> set ?l"
    using nl hd_middle by (simp_all add: hd_js del: code_unit_in_js)
  with 1 have 2: "sublist ?l style \<or> sublist ?l (js instruction_middle @ script @ js instruction_tail)"
    using sublist_append_hd by blast
  have "js instruction_middle \<noteq> []" and "last (js instruction_middle) \<notin> set ?l"
    using nl hd_middle by (simp_all add: last_js last_middle del: code_unit_in_js)
  then have 3: "sublist ?l (js instruction_middle @ script @ js instruction_tail)
      \<Longrightarrow> sublist ?l (script @ js instruction_tail)"
    using m sublist_append_last by blast
  have "js instruction_tail \<noteq> []" and "hd (js instruction_tail) \<notin> set ?l"
    using nl hd_tail by (simp_all add: hd_js del: code_unit_in_js)
  then have 4: "sublist ?l (script @ js instruction_tail) \<Longrightarrow> sublist ?l script"
    using t sublist_append_hd by blast
  from 2 3 4 show ?thesis by blast
qed

lemma requestPrompt_contains_script:
  "sublist script (build_requestPrompt script style niche)"
proof -
  have "build_requestPrompt script style niche =
      (js instruction_head
       @ (if niche \<noteq> [] then js ''- **Topic/Niche:** '' @ niche @ js ''\<newline>'' else [])
       @ js ''- **Visual Style:** '' @ style @ js instruction_middle) @ script @ js instruction_tail"
    by (simp add: build_requestPrompt_def)
  then show ?thesis
    by (simp only: sublist_appendI)
qed

lemma requestPrompt_contains_style:
  "sublist style (build_requestPrompt script style niche)"
proof -
  have "build_requestPrompt script style niche =
      (js instruction_head
       @ (if niche \<noteq> [] then js ''- **Topic/Niche:** '' @ niche @ js ''\<newline>'' else [])
       @ js ''- **Visual Style:** '') @ style @ (js instruction_middle @ script @ js instruction_tail)"
    by (simp add: build_requestPrompt_def)
  then show ?thesis
    by (simp only: sublist_appendI)
qed

lemma requestPrompt_contains_niche:
  "sublist niche (build_requestPrompt script style niche)"
proof (cases "niche = []")
  case True
  then show ?thesis by simp
next
  case False
  then have "build_requestPrompt script style niche =
      (js instruction_head @ js ''- **Topic/Niche:** '') @ niche
       @ (js ''\<newline>'' @ js ''- **Visual Style:** '' @ style @ js instruction_middle
          @ script @ js instruction_tail)"
    by (simp add: build_requestPrompt_def)
  then show ?thesis
    by (simp only: sublist_appendI)
qed

text \<open>
  C3, as amended. For every script, style and niche (empty or not) the instruction text
  contains each of the three verbatim. With an empty niche the template writes no niche
  line: the label \<open>**Topic/Niche:**\<close> of that line occurs in the instruction text exactly
  when the script or the style, which are copied in as they are, contain it.
\<close>

theorem requestPrompt_contents:
  "String_includes (build_requestPrompt script style niche) script
   \<and> String_includes (build_requestPrompt script style niche) style
   \<and> String_includes (build_requestPrompt script style niche) niche
   \<and> (String_includes (build_requestPrompt script style []) (js ''**Topic/Niche:**'')
        = (String_includes style (js ''**Topic/Niche:**'')
           \<or> String_includes script (js ''**Topic/Niche:**'')))"
proof -
  have "sublist (js ''**Topic/Niche:**'') style
      \<Longrightarrow> sublist (js ''**Topic/Niche:**'') (build_requestPrompt script style [])"
    using requestPrompt_contains_style [of style script "[]"]
    by (rule sublist_order.order.trans [rotated])
  moreover have "sublist (js ''**Topic/Niche:**'') script
      \<Longrightarrow> sublist (js ''**Topic/Niche:**'') (build_requestPrompt script style [])"
    using requestPrompt_contains_script [of script style "[]"]
    by (rule sublist_order.order.trans [rotated])
  ultimately show ?thesis
    unfolding String_includes_def
    using niche_label_only_from_caller [of script style]
      requestPrompt_contains_script [of script style niche]
      requestPrompt_contains_style [of style script niche]
      requestPrompt_contains_niche [of niche script style]
    by blast
qed

lemma requestPrompt_script_line:
  "sublist (js ''\<newline>'' @ script @ js ''\<newline>'') (build_requestPrompt script style niche)"
proof -
  from hd_middle have "butlast instruction_middle @ [last instruction_middle] = instruction_middle"
    by simp
  then have "butlast instruction_middle @ ''\<newline>'' = instruction_middle"
    by (simp only: last_middle)
  then have "js instruction_middle = js (butlast instruction_middle @ ''\<newline>'')"
    by (rule arg_cong [OF sym])
  then have m: "js instruction_middle = js (butlast instruction_middle) @ js ''\<newline>''"
    by (simp only: js_append)
  have "instruction_tail = ''\<newline>'' @ tl instruction_tail"
    unfolding instruction_tail_def by simp
  then have "js instruction_tail = js (''\<newline>'' @ tl instruction_tail)"
    by (rule arg_cong)
  then have t: "js instruction_tail = js ''\<newline>'' @ js (tl instruction_tail)"
    by (simp only: js_append)
  have "build_requestPrompt script style niche =
      (js instruction_head
       @ (if niche \<noteq> [] then js ''- **Topic/Niche:** '' @ niche @ js ''\<newline>'' else [])
       @ js ''- **Visual Style:** '' @ style @ js (butlast instruction_middle))
      @ (js ''\<newline>'' @ script @ js ''\<newline>'') @ js (tl instruction_tail)"
    unfolding build_requestPrompt_def m t by simp
  then show ?thesis
    by (simp only: sublist_appendI)
qed

text \<open>
  C3 as stated fails: with an empty niche and a script that is itself a niche-labeled line,
  the instruction text holds that line, between two line breaks.
\<close>

theorem requestPrompt_niche_line_counterexample:
  "String_includes
     (build_requestPrompt (js ''- **Topic/Niche:** cats'') (js ''noir'') [])
     (js ''\<newline>- **Topic/Niche:** cats\<newline>'')
   \<and> String_includes
     (build_requestPrompt (js ''- **Topic/Niche:** cats'') (js ''noir'') [])
     (js ''**Topic/Niche:**'')"
proof -
  have "js ''\<newline>'' @ js ''- **Topic/Niche:** cats'' @ js ''\<newline>''
      = js ''\<newline>- **Topic/Niche:** cats\<newline>''"
    by (simp add: js_def)
  with requestPrompt_script_line [of "js ''- **Topic/Niche:** cats''" "js ''noir''" "[]"]
  have 1: "sublist (js ''\<newline>- **Topic/Niche:** cats\<newline>'')
      (build_requestPrompt (js ''- **Topic/Niche:** cats'') (js ''noir'') [])"
    by simp
  have "sublist (js ''**Topic/Niche:**'') (js ''\<newline>- **Topic/Niche:** cats\<newline>'')"
    by (simp add: sublist_code)
  from this 1 have "sublist (js ''**Topic/Niche:**'')
      (build_requestPrompt (js ''- **Topic/Niche:** cats'') (js ''noir'') [])"
    by (rule sublist_order.order.trans)
  with 1 show ?thesis
    by (simp add: String_includes_def)
qed

end
